theory Spec2Isabelle
  imports Complex_Main
begin

section \<open>Data model\<close>

text \<open>
  The hub exists in two variants in the repository: \<^verbatim>\<open>backend/server.ts\<close>
  (\<^verbatim>\<open>src/unnamed/part_000\<close>, lines 1-559) and the older server that is the second
  half of \<^verbatim>\<open>src/utilshelpers.ts\<close>.  Constants without a suffix embed
  \<^verbatim>\<open>part_000\<close>; a constant with the suffix \<open>_helpers\<close> embeds the function of
  the same name in \<^verbatim>\<open>utilshelpers.ts\<close>, and is given where the two differ and a
  property below depends on the difference.

  A \<^verbatim>\<open>WebSocket\<close> object is a natural number (its identity, compared by
  \<^verbatim>\<open>===\<close>).  \<^verbatim>\<open>Date.now()\<close> is an \<open>int\<close>, read once per handler call.
  A JSON number is the rational it denotes: the handlers only compare numbers
  and store them.  The field \<^verbatim>\<open>id\<close> of a user is \<open>uid\<close> here, and the
  module's variable \<^verbatim>\<open>gameState\<close> is the field \<open>gameState\<close> of the state.
\<close>

type_synonym sock = nat

datatype readyState = CONNECTING | OPEN | CLOSING | CLOSED

datatype status = online | offline

record User =
  uid :: string
  username :: string
  socket :: sock
  ip :: string
  status :: status
  isAdmin :: bool
  token :: "string option"
  lastSeen :: int

record GameState =
  active :: bool
  currentNumber :: "rat option"
  calledNumbers :: "rat list"
  players :: "string list"
  winner :: "string option"

record TokenData =
  userId :: string
  expires :: int

text \<open>
  The decoded inbound message, \<^verbatim>\<open>data: any\<close>, with the fields the handlers read:
  texts as strings, \<^verbatim>\<open>data.number\<close> as a JSON number.  A field that is absent is
  \<open>None\<close>.  A field of another JSON type is outside this model (JavaScript would
  coerce it in a comparison or in a template).  \<open>data_data_amount\<close> is the text of
  \<^verbatim>\<open>data.data.amount\<close>, and \<open>data_rest\<close> stands for all fields that no handler
  reads, the negotiation payload of an RTC message among them.
\<close>

record Data =
  data_type :: string
  data_userId :: "string option"
  data_username :: "string option"
  data_password :: "string option"
  data_token :: "string option"
  data_command :: "string option"
  data_data_winner :: "string option"
  data_data_message :: "string option"
  data_data_amount :: "string option"
  data_targetUserId :: "string option"
  data_fromUserId :: "string option"
  data_number :: "rat option"
  data_pattern :: "string option"
  data_rest :: string

record UserInfo =
  info_id :: string
  info_username :: string
  info_status :: status
  info_ip :: string
  info_isAdmin :: "bool option"

text \<open>Outbound envelopes, one constructor for each \<^verbatim>\<open>type\<close> the server sends.\<close>

datatype outMsg =
    Welcome string GameState
  | AuthResponse bool "string option" string
  | CommandResponse bool string
  | StatsUpdate nat nat nat "int option"
  | UsersList "UserInfo list"
  | GameStateMsg GameState
  | Broadcast string int
  | NumberCalled rat "rat list"
  | WinnerAnnounced string string string
  | RtcForward Data
  | ErrorMessage string

text \<open>
  The global state of the module, the state of every socket, and the messages
  handed to \<^verbatim>\<open>socket.send\<close> so far, in order.  \<open>sendThrows s\<close> says that
  \<^verbatim>\<open>send\<close> on socket \<open>s\<close> raises.
\<close>

record world =
  users :: "(string \<times> User) list"
  adminTokens :: "(string \<times> TokenData) list"
  gameState :: GameState
  readyStateOf :: "sock \<Rightarrow> readyState"
  sendThrows :: "sock \<Rightarrow> bool"
  outbox :: "(sock \<times> outMsg) list"

text \<open>A handler either returns or is left by an exception; the state stays as mutated.\<close>

datatype result = Returned world | Threw world

fun stateOf :: "result \<Rightarrow> world" where
  "stateOf (Returned w) = w"
| "stateOf (Threw w) = w"

fun andThen :: "result \<Rightarrow> (world \<Rightarrow> result) \<Rightarrow> result" where
  "andThen (Returned w) f = f w"
| "andThen (Threw w) f = Threw w"

subsection \<open>The JavaScript \<^verbatim>\<open>Map\<close>: keys in insertion order\<close>

fun map_set :: "('k \<times> 'v) list \<Rightarrow> 'k \<Rightarrow> 'v \<Rightarrow> ('k \<times> 'v) list" where
  "map_set [] k v = [(k, v)]"
| "map_set ((k', v') # m) k v = (if k' = k then (k, v) # m else (k', v') # map_set m k v)"

definition map_get :: "('k \<times> 'v) list \<Rightarrow> 'k \<Rightarrow> 'v option" where
  "map_get m k = map_of m k"

definition map_delete :: "('k \<times> 'v) list \<Rightarrow> 'k \<Rightarrow> ('k \<times> 'v) list" where
  "map_delete m k = filter (\<lambda>e. fst e \<noteq> k) m"

definition map_values :: "('k \<times> 'v) list \<Rightarrow> 'v list" where
  "map_values m = map snd m"

text \<open>\<^verbatim>\<open>Array.from(users.values()).find(u => u.socket === socket)\<close>\<close>

definition findBySocket :: "(string \<times> User) list \<Rightarrow> sock \<Rightarrow> User option" where
  "findBySocket us s = find (\<lambda>u. socket u = s) (map_values us)"

text \<open>\<^verbatim>\<open>Array.from(users.entries()).find(([_, u]) => u.socket === socket)?.[0]\<close>\<close>

definition findIdBySocket :: "(string \<times> User) list \<Rightarrow> sock \<Rightarrow> string option" where
  "findIdBySocket us s = map_option fst (find (\<lambda>e. socket (snd e) = s) us)"

subsection \<open>Strings\<close>

text \<open>\<^verbatim>\<open>a || b\<close> on an optional string: an absent value and the empty string are falsy.\<close>

definition jsOr :: "string option \<Rightarrow> string \<Rightarrow> string" where
  "jsOr a b = (case a of None \<Rightarrow> b | Some s \<Rightarrow> if s = [] then b else s)"

definition truthy :: "string option \<Rightarrow> bool" where
  "truthy a = (case a of None \<Rightarrow> False | Some s \<Rightarrow> s \<noteq> [])"

definition startsWith :: "string \<Rightarrow> string \<Rightarrow> bool" where
  "startsWith s p = (take (length p) s = p)"

definition digitChar :: "nat \<Rightarrow> char" where
  "digitChar d = ''0123456789abcdefghijklmnopqrstuvwxyz'' ! d"

function toStringRadix :: "nat \<Rightarrow> nat \<Rightarrow> string" where
  "toStringRadix b n =
     (if b < 2 \<or> n < b then [digitChar n] else toStringRadix b (n div b) @ [digitChar (n mod b)])"
  by pat_completeness auto
termination
  by (relation "measure (\<lambda>(b, n). n)") auto

text \<open>\<^verbatim>\<open>Date.now()\<close> in a template string, and \<^verbatim>\<open>Date.now().toString(36)\<close>;
  the clock is never negative.\<close>

definition showNow :: "int \<Rightarrow> string" where
  "showNow now = toStringRadix 10 (nat now)"

definition ADMIN_PASSWORD :: string where
  "ADMIN_PASSWORD = ''we17me78''"

text \<open>\<^verbatim>\<open>generateToken\<close>: \<open>rnd\<close> is the text of the 32 random bytes.\<close>

definition generateToken :: "string \<Rightarrow> int \<Rightarrow> string" where
  "generateToken rnd now = rnd @ ''_'' @ toStringRadix 36 (nat now)"

definition verifyAdminPassword :: "string option \<Rightarrow> bool" where
  "verifyAdminPassword password = (password = Some ADMIN_PASSWORD)"

section \<open>Sending and fan-out\<close>

text \<open>\<^verbatim>\<open>socket.send(JSON.stringify(m))\<close>\<close>

definition send :: "world \<Rightarrow> sock \<Rightarrow> outMsg \<Rightarrow> result" where
  "send w s m = (if sendThrows w s then Threw w else Returned (w\<lparr>outbox := outbox w @ [(s, m)]\<rparr>))"

text \<open>
  \<^verbatim>\<open>broadcastToAll\<close> of \<^verbatim>\<open>part_000\<close> (lines 499-510): the body of the
  \<^verbatim>\<open>forEach\<close> sends inside \<^verbatim>\<open>try\<close>/\<^verbatim>\<open>catch\<close>, so an exception of one
  \<^verbatim>\<open>send\<close> is logged and the iteration goes on.
\<close>

fun sendEach :: "User list \<Rightarrow> outMsg \<Rightarrow> world \<Rightarrow> world" where
  "sendEach [] m w = w"
| "sendEach (u # us) m w =
     sendEach us m
       (if readyStateOf w (socket u) = OPEN then stateOf (send w (socket u) m) else w)"

definition broadcastToAll :: "world \<Rightarrow> outMsg \<Rightarrow> world" where
  "broadcastToAll w m = sendEach (map_values (users w)) m w"

text \<open>
  \<^verbatim>\<open>broadcastToAll\<close> of \<^verbatim>\<open>utilshelpers.ts\<close> (lines 465-473): no
  \<^verbatim>\<open>try\<close>/\<^verbatim>\<open>catch\<close>, an exception of one \<^verbatim>\<open>send\<close> leaves the
  \<^verbatim>\<open>forEach\<close>.
\<close>

fun sendEach_helpers :: "User list \<Rightarrow> outMsg \<Rightarrow> world \<Rightarrow> result" where
  "sendEach_helpers [] m w = Returned w"
| "sendEach_helpers (u # us) m w =
     (if readyStateOf w (socket u) = OPEN
      then andThen (send w (socket u) m) (sendEach_helpers us m)
      else sendEach_helpers us m w)"

definition broadcastToAll_helpers :: "world \<Rightarrow> outMsg \<Rightarrow> result" where
  "broadcastToAll_helpers w m = sendEach_helpers (map_values (users w)) m w"

definition userList :: "world \<Rightarrow> UserInfo list" where
  "userList w =
     map (\<lambda>u. \<lparr>info_id = uid u, info_username = username u, info_status = status u,
               info_ip = ip u, info_isAdmin = Some (isAdmin u)\<rparr>)
       (filter (\<lambda>u. \<not> startsWith (uid u) ''temp_'') (map_values (users w)))"

definition userList_helpers :: "world \<Rightarrow> UserInfo list" where
  "userList_helpers w =
     map (\<lambda>u. \<lparr>info_id = uid u, info_username = username u, info_status = status u,
               info_ip = ip u, info_isAdmin = None\<rparr>)
       (map_values (users w))"

definition broadcastUserList :: "world \<Rightarrow> world" where
  "broadcastUserList w = broadcastToAll w (UsersList (userList w))"

definition sendUserList :: "world \<Rightarrow> sock \<Rightarrow> result" where
  "sendUserList w s = send w s (UsersList (userList w))"

definition sendUserList_helpers :: "world \<Rightarrow> sock \<Rightarrow> result" where
  "sendUserList_helpers w s = send w s (UsersList (userList_helpers w))"

definition broadcastGameState :: "world \<Rightarrow> world" where
  "broadcastGameState w = broadcastToAll w (GameStateMsg (gameState w))"

definition broadcastGameState_helpers :: "world \<Rightarrow> result" where
  "broadcastGameState_helpers w = broadcastToAll_helpers w (GameStateMsg (gameState w))"

definition broadcastMessage :: "world \<Rightarrow> string \<Rightarrow> int \<Rightarrow> world" where
  "broadcastMessage w message now = broadcastToAll w (Broadcast message now)"

definition broadcastMessage_helpers :: "world \<Rightarrow> string \<Rightarrow> int \<Rightarrow> result" where
  "broadcastMessage_helpers w message now = broadcastToAll_helpers w (Broadcast message now)"

definition calculateRevenue :: "world \<Rightarrow> nat" where
  "calculateRevenue w =
     length (filter (\<lambda>u. \<not> startsWith (uid u) ''temp_'') (map_values (users w))) * 25"

definition handleGetStats :: "world \<Rightarrow> sock \<Rightarrow> int \<Rightarrow> result" where
  "handleGetStats w s now =
     andThen
       (send w s (StatsUpdate (length (users w)) (if active (gameState w) then 1 else 0)
                    (calculateRevenue w) (Some now)))
       (\<lambda>w1. sendUserList w1 s)"

section \<open>Handlers of \<^verbatim>\<open>part_000\<close> (backend/server.ts)\<close>

text \<open>
  \<^verbatim>\<open>handleUserJoin\<close> (lines 203-229).  \<open>r1\<close> and \<open>r2\<close> are the two texts
  \<^verbatim>\<open>Math.random().toString(36).substring(...)\<close>.  The session is stored with
  \<^verbatim>\<open>users.set(userId, user)\<close>, whatever the registry holds under that key.
\<close>

definition handleUserJoin :: "world \<Rightarrow> sock \<Rightarrow> Data \<Rightarrow> string \<Rightarrow> int \<Rightarrow> string \<Rightarrow> string \<Rightarrow> result" where
  "handleUserJoin w s d ipaddr now r1 r2 =
     (let newId = jsOr (data_userId d) (''user_'' @ showNow now @ ''_'' @ r1);
          uname = jsOr (data_username d) (''Player_'' @ r2);
          user = \<lparr>uid = newId, username = uname, socket = s, ip = ipaddr, status = online,
                  isAdmin = False, token = None, lastSeen = now\<rparr>;
          w1 = w\<lparr>users := map_set (users w) newId user\<rparr>
      in andThen (send w1 s (Welcome newId (gameState w1)))
           (\<lambda>w2. Returned (broadcastUserList w2)))"

text \<open>
  \<^verbatim>\<open>handleAdminAuth\<close> (lines 232-293): the session of the socket, if there is
  one, is deleted, and a session \<^verbatim>\<open>admin_<now>\<close> is created.
\<close>

definition handleAdminAuth :: "world \<Rightarrow> sock \<Rightarrow> Data \<Rightarrow> int \<Rightarrow> string \<Rightarrow> result" where
  "handleAdminAuth w s d now rnd =
     (if verifyAdminPassword (data_password d) then
        (let tok = generateToken rnd now;
             newId = ''admin_'' @ showNow now;
             existingUserId = findIdBySocket (users w) s;
             us1 = (case existingUserId of
                      None \<Rightarrow> users w
                    | Some k \<Rightarrow> if k = [] then users w else map_delete (users w) k);
             adminUser = \<lparr>uid = newId, username = ''Admin'', socket = s, ip = ''admin'',
                          status = online, isAdmin = True, token = Some tok, lastSeen = now\<rparr>;
             w1 = w\<lparr>users := map_set us1 newId adminUser,
                     adminTokens := map_set (adminTokens w) tok
                        \<lparr>userId = uid adminUser, expires = now + 24 * 60 * 60 * 1000\<rparr>\<rparr>
         in andThen (send w1 s (AuthResponse True (Some tok) ''Authentication successful''))
              (\<lambda>w2. handleGetStats w2 s now))
      else send w s (AuthResponse False None ''Invalid password''))"

definition commandText :: "Data \<Rightarrow> string" where
  "commandText d = (case data_command d of None \<Rightarrow> ''undefined'' | Some c \<Rightarrow> c)"

text \<open>The \<^verbatim>\<open>switch (data.command)\<close> of \<^verbatim>\<open>handleAdminCommand\<close> (lines 312-352).
  The characters in front of the two texts are the UTF-8 bytes the source file has there.\<close>

definition execCommand :: "world \<Rightarrow> sock \<Rightarrow> Data \<Rightarrow> int \<Rightarrow> result" where
  "execCommand w s d now =
     (if data_command d = Some ''start_game'' then
        Returned (broadcastGameState
          (w\<lparr>gameState := (gameState w)\<lparr>active := True, currentNumber := None,
                                         calledNumbers := [], winner := None\<rparr>\<rparr>))
      else if data_command d = Some ''pause_game'' then
        Returned (broadcastGameState (w\<lparr>gameState := (gameState w)\<lparr>active := False\<rparr>\<rparr>))
      else if data_command d = Some ''reset_game'' then
        Returned (broadcastGameState
          (w\<lparr>gameState := (gameState w)\<lparr>active := False, currentNumber := None,
                                         calledNumbers := [], winner := None\<rparr>\<rparr>))
      else if data_command d = Some ''announce_winner'' then
        Returned (broadcastMessage w
          ([CHR 0xEF, CHR 0xA3, CHR 0xBF, CHR 0xC3, CHR 0xBC, CHR 0xC3, CHR 0xA9, CHR 0xC3, CHR 0xA2]
             @ '' Winner announced: ''
             @ jsOr (data_data_winner d) ''Anonymous'' @ ''!'') now)
      else if data_command d = Some ''broadcast_message'' then
        Returned (broadcastMessage w (jsOr (data_data_message d) ''Admin broadcast'') now)
      else if data_command d = Some ''update_prize_pool'' then
        Returned (broadcastMessage w
          ([CHR 0xEF, CHR 0xA3, CHR 0xBF, CHR 0xC3, CHR 0xBC, CHR 0xC3, CHR 0xAD, CHR 0xE2, CHR 0x88, CHR 0x9E]
             @ '' Prize pool updated to ''
             @ jsOr (data_data_amount d) ''0'' @ '' ETB'') now)
      else if data_command d = Some ''get_users'' then sendUserList w s
      else Returned w)"

text \<open>
  \<^verbatim>\<open>handleAdminCommand\<close> (lines 296-359): the sender is authorised when the first
  session of its socket has \<^verbatim>\<open>isAdmin\<close>; \<^verbatim>\<open>data.token\<close> is not read.
\<close>

definition handleAdminCommand :: "world \<Rightarrow> sock \<Rightarrow> Data \<Rightarrow> int \<Rightarrow> result" where
  "handleAdminCommand w s d now =
     (case findBySocket (users w) s of
        None \<Rightarrow> send w s (CommandResponse False ''Unauthorized - Not an admin'')
      | Some user \<Rightarrow>
          if \<not> isAdmin user then send w s (CommandResponse False ''Unauthorized - Not an admin'')
          else andThen (execCommand w s d now)
                 (\<lambda>w1. send w1 s (CommandResponse True
                    (''Command '' @ [CHR 0x22] @ commandText d @ [CHR 0x22]
                       @ '' executed successfully''))))"

text \<open>\<^verbatim>\<open>handleRTCMessage\<close> (lines 362-374); \<^verbatim>\<open>{...data, fromUserId}\<close> is the
  message with its \<^verbatim>\<open>fromUserId\<close> replaced.\<close>

definition handleRTCMessage :: "world \<Rightarrow> sock \<Rightarrow> Data \<Rightarrow> result" where
  "handleRTCMessage w s d =
     (case (case data_targetUserId d of None \<Rightarrow> None | Some t \<Rightarrow> map_get (users w) t) of
        None \<Rightarrow> Returned w
      | Some targetUser \<Rightarrow>
          if readyStateOf w (socket targetUser) = OPEN
          then send w (socket targetUser)
                 (RtcForward (d\<lparr>data_fromUserId := findIdBySocket (users w) s\<rparr>))
          else Returned w)"

text \<open>\<^verbatim>\<open>handleCallNumber\<close> (lines 377-392).  An absent \<^verbatim>\<open>data.number\<close> fails both
  comparisons.\<close>

definition handleCallNumber :: "world \<Rightarrow> sock \<Rightarrow> Data \<Rightarrow> world" where
  "handleCallNumber w s d =
     (if \<not> active (gameState w) then w
      else case data_number d of
        None \<Rightarrow> w
      | Some number \<Rightarrow>
          if number \<ge> 1 \<and> number \<le> 90 \<and> number \<notin> set (calledNumbers (gameState w))
          then (let g = (gameState w)\<lparr>calledNumbers := calledNumbers (gameState w) @ [number]\<rparr>;
                    g' = g\<lparr>currentNumber := Some number\<rparr>;
                    w1 = w\<lparr>gameState := g'\<rparr>
                in broadcastToAll w1 (NumberCalled number (calledNumbers g')))
          else w)"

text \<open>\<^verbatim>\<open>handleMarkNumber\<close> (lines 395-399) only logs.\<close>

definition handleMarkNumber :: "world \<Rightarrow> sock \<Rightarrow> Data \<Rightarrow> world" where
  "handleMarkNumber w s d = w"

text \<open>\<^verbatim>\<open>handleAnnounceWin\<close> (lines 402-416): guarded by \<^verbatim>\<open>user && data.pattern\<close>.\<close>

definition handleAnnounceWin :: "world \<Rightarrow> sock \<Rightarrow> Data \<Rightarrow> world" where
  "handleAnnounceWin w s d =
     (case findBySocket (users w) s of
        None \<Rightarrow> w
      | Some user \<Rightarrow>
          (case data_pattern d of
             None \<Rightarrow> w
           | Some pattern \<Rightarrow>
               if pattern = [] then w
               else broadcastToAll (w\<lparr>gameState := (gameState w)\<lparr>winner := Some (uid user)\<rparr>\<rparr>)
                      (WinnerAnnounced (uid user) (username user) pattern)))"

text \<open>The interval of lines 527-534.\<close>

definition cleanupExpiredTokens :: "world \<Rightarrow> int \<Rightarrow> world" where
  "cleanupExpiredTokens w now =
     w\<lparr>adminTokens := filter (\<lambda>e. \<not> expires (snd e) < now) (adminTokens w)\<rparr>"

text \<open>The interval of lines 537-545.\<close>

definition cleanupTemporaryUsers :: "world \<Rightarrow> int \<Rightarrow> world" where
  "cleanupTemporaryUsers w now =
     w\<lparr>users := filter (\<lambda>e. \<not> (startsWith (fst e) ''temp_'' \<and> now - lastSeen (snd e) > 5 * 60 * 1000))
                  (users w)\<rparr>"

text \<open>\<^verbatim>\<open>handleDisconnection\<close> (lines 513-524).  The broadcast of the user list runs
  later, from a timer: it is a step of its own (\<open>broadcastUserList\<close>).\<close>

definition handleDisconnection :: "world \<Rightarrow> sock \<Rightarrow> world" where
  "handleDisconnection w s =
     (case findIdBySocket (users w) s of
        None \<Rightarrow> w
      | Some k \<Rightarrow> if k = [] then w else w\<lparr>users := map_delete (users w) k\<rparr>)"

text \<open>\<^verbatim>\<open>handleWebSocketMessage\<close> (lines 140-200).\<close>

definition handleWebSocketMessage ::
    "world \<Rightarrow> sock \<Rightarrow> Data \<Rightarrow> string \<Rightarrow> int \<Rightarrow> string \<Rightarrow> string \<Rightarrow> result" where
  "handleWebSocketMessage w s d ipaddr now r1 r2 =
     (if data_type d = ''user_join'' then handleUserJoin w s d ipaddr now r1 r2
      else if data_type d = ''admin_auth'' then handleAdminAuth w s d now r1
      else if data_type d = ''get_stats'' then handleGetStats w s now
      else if data_type d = ''admin_command'' then handleAdminCommand w s d now
      else if data_type d = ''rtc_offer'' \<or> data_type d = ''rtc_answer''
              \<or> data_type d = ''ice_candidate'' then handleRTCMessage w s d
      else if data_type d = ''call_number'' then Returned (handleCallNumber w s d)
      else if data_type d = ''mark_number'' then Returned (handleMarkNumber w s d)
      else if data_type d = ''announce_win'' then Returned (handleAnnounceWin w s d)
      else if data_type d = ''client_connected'' then
        (let tempId = ''temp_'' @ showNow now @ ''_'' @ r1;
             tempUser = \<lparr>uid = tempId, username = ''Guest'', socket = s, ip = ipaddr,
                         status = online, isAdmin = False, token = None, lastSeen = now\<rparr>
         in Returned (w\<lparr>users := map_set (users w) tempId tempUser\<rparr>))
      else send w s (ErrorMessage ''Unknown message type''))"

section \<open>Handlers of \<^verbatim>\<open>utilshelpers.ts\<close> that differ\<close>

text \<open>The object found by socket is mutated in place: the first entry whose session has
  this socket.\<close>

fun mutateBySocket :: "(string \<times> User) list \<Rightarrow> sock \<Rightarrow> (User \<Rightarrow> User) \<Rightarrow> (string \<times> User) list" where
  "mutateBySocket [] s f = []"
| "mutateBySocket (e # m) s f =
     (if socket (snd e) = s then (fst e, f (snd e)) # m else e # mutateBySocket m s f)"

text \<open>
  \<^verbatim>\<open>handleAdminAuth\<close> (\<^verbatim>\<open>utilshelpers.ts\<close> lines 223-272): find or create.
  \<open>rnd\<close> is the text of \<^verbatim>\<open>crypto.randomUUID()\<close>.
\<close>

definition handleAdminAuth_helpers :: "world \<Rightarrow> sock \<Rightarrow> Data \<Rightarrow> int \<Rightarrow> string \<Rightarrow> result" where
  "handleAdminAuth_helpers w s d now rnd =
     (if verifyAdminPassword (data_password d) then
        (let tok = generateToken rnd now;
             newId = ''admin_'' @ showNow now;
             created = \<lparr>uid = newId, username = ''Admin'', socket = s, ip = ''admin'',
                        status = online, isAdmin = True, token = Some tok, lastSeen = now\<rparr>;
             adminUser = (case findBySocket (users w) s of
                            None \<Rightarrow> created
                          | Some u \<Rightarrow> u\<lparr>isAdmin := True, token := Some tok\<rparr>);
             us1 = (case findBySocket (users w) s of
                      None \<Rightarrow> map_set (users w) newId created
                    | Some u \<Rightarrow>
                        mutateBySocket (users w) s (\<lambda>u. u\<lparr>isAdmin := True, token := Some tok\<rparr>));
             w1 = w\<lparr>users := us1,
                     adminTokens := map_set (adminTokens w) tok
                        \<lparr>userId = uid adminUser, expires = now + 24 * 60 * 60 * 1000\<rparr>\<rparr>
         in send w1 s (AuthResponse True (Some tok) ''Authentication successful''))
      else send w s (AuthResponse False None ''Invalid password''))"

definition execCommand_helpers :: "world \<Rightarrow> sock \<Rightarrow> Data \<Rightarrow> int \<Rightarrow> result" where
  "execCommand_helpers w s d now =
     (if data_command d = Some ''start_game'' then
        broadcastGameState_helpers
          (w\<lparr>gameState := (gameState w)\<lparr>active := True, currentNumber := None,
                                         calledNumbers := [], winner := None\<rparr>\<rparr>)
      else if data_command d = Some ''pause_game'' then
        broadcastGameState_helpers (w\<lparr>gameState := (gameState w)\<lparr>active := False\<rparr>\<rparr>)
      else if data_command d = Some ''reset_game'' then
        broadcastGameState_helpers
          (w\<lparr>gameState := (gameState w)\<lparr>active := False, currentNumber := None,
                                         calledNumbers := [], winner := None\<rparr>\<rparr>)
      else if data_command d = Some ''broadcast_message'' then
        broadcastMessage_helpers w (jsOr (data_data_message d) ''Admin broadcast'') now
      else if data_command d = Some ''get_users'' then sendUserList_helpers w s
      else Returned w)"

text \<open>The test of lines 277-280: the token is unknown, or its expiry lies before now.\<close>

definition tokenRejected :: "(string \<times> TokenData) list \<Rightarrow> string option \<Rightarrow> int \<Rightarrow> bool" where
  "tokenRejected toks t now =
     (case (case t of None \<Rightarrow> None | Some k \<Rightarrow> map_get toks k) of
        None \<Rightarrow> True
      | Some tokenData \<Rightarrow> expires tokenData < now)"

text \<open>
  \<^verbatim>\<open>handleAdminCommand\<close> (\<^verbatim>\<open>utilshelpers.ts\<close> lines 275-344): the sender is
  authorised by \<^verbatim>\<open>data.token\<close> and the session of the token's owner; its own
  socket is not looked up.
\<close>

definition handleAdminCommand_helpers :: "world \<Rightarrow> sock \<Rightarrow> Data \<Rightarrow> int \<Rightarrow> result" where
  "handleAdminCommand_helpers w s d now =
     (if tokenRejected (adminTokens w) (data_token d) now
      then send w s (CommandResponse False ''Invalid or expired token'')
      else case (case data_token d of None \<Rightarrow> None | Some k \<Rightarrow> map_get (adminTokens w) k) of
        None \<Rightarrow> send w s (CommandResponse False ''Invalid or expired token'')
      | Some tokenData \<Rightarrow>
          (case map_get (users w) (userId tokenData) of
             None \<Rightarrow> send w s (CommandResponse False ''Unauthorized'')
           | Some adminUser \<Rightarrow>
               if \<not> isAdmin adminUser then send w s (CommandResponse False ''Unauthorized'')
               else andThen (execCommand_helpers w s d now)
                      (\<lambda>w1. send w1 s (CommandResponse True
                         (''Command '' @ [CHR 0x22] @ commandText d @ [CHR 0x22]
                            @ '' executed'')))))"

section \<open>The standalone controllers\<close>

text \<open>\<^verbatim>\<open>SignalingController.handleSignal\<close> (\<^verbatim>\<open>src/signaling.ts\<close> lines 13-22).
  The \<^verbatim>\<open>type\<close> written first is overwritten by the spread of the signal.\<close>

record RTCSignal =
  signal_type :: string
  sdp :: "string option"
  candidate :: "string option"
  target :: string
  source :: string

datatype signalOut = Signal RTCSignal

record SignalingController =
  connections :: "(string \<times> sock) list"
  readyStateOfWs :: "sock \<Rightarrow> readyState"
  sent :: "(sock \<times> signalOut) list"

definition handleSignal :: "SignalingController \<Rightarrow> sock \<Rightarrow> RTCSignal \<Rightarrow> SignalingController" where
  "handleSignal c ws signal =
     (case map_get (connections c) (target signal) of
        None \<Rightarrow> c
      | Some targetWs \<Rightarrow>
          if readyStateOfWs c targetWs = OPEN
          then c\<lparr>sent := sent c @ [(targetWs, Signal signal)]\<rparr>
          else c)"

text \<open>\<^verbatim>\<open>AdminController\<close> (\<^verbatim>\<open>src/admin.ts\<close>).\<close>

record AdminController =
  adminUsers :: "string set"

definition verifyToken :: "AdminController \<Rightarrow> string \<Rightarrow> bool" where
  "verifyToken c t = True"

section \<open>Notions used by the properties\<close>

text \<open>A session can be reached when its socket is open and \<^verbatim>\<open>send\<close> on it does
  not raise.\<close>

definition reachable :: "world \<Rightarrow> User \<Rightarrow> bool" where
  "reachable w u = (readyStateOf w (socket u) = OPEN \<and> \<not> sendThrows w (socket u))"

text \<open>What one fan-out hands to the sockets: one copy for every session that can be
  reached, in registry order.\<close>

definition deliveries :: "world \<Rightarrow> outMsg \<Rightarrow> (sock \<times> outMsg) list" where
  "deliveries w m = map (\<lambda>u. (socket u, m)) (filter (reachable w) (map_values (users w)))"

text \<open>The invariant of the game session as the specification words it, and the part of it
  that does not speak of integers.\<close>

definition rangeInvariant :: "GameState \<Rightarrow> bool" where
  "rangeInvariant g =
     (distinct (calledNumbers g) \<and> (\<forall>x \<in> set (calledNumbers g). 1 \<le> x \<and> x \<le> 90) \<and>
      (case currentNumber g of
         None \<Rightarrow> True
       | Some c \<Rightarrow> calledNumbers g \<noteq> [] \<and> last (calledNumbers g) = c))"



text \<open>The state at start-up (lines 26-34), with every socket open and no failing send.\<close>

definition initialGameState :: GameState where
  "initialGameState =
     \<lparr>active = False, currentNumber = None, calledNumbers = [], players = [], winner = None\<rparr>"

definition initialWorld :: world where
  "initialWorld =
     \<lparr>users = [], adminTokens = [], gameState = initialGameState,
      readyStateOf = (\<lambda>s. OPEN), sendThrows = (\<lambda>s. False), outbox = []\<rparr>"

definition emptyData :: Data where
  "emptyData =
     \<lparr>data_type = [], data_userId = None, data_username = None, data_password = None,
      data_token = None, data_command = None, data_data_winner = None,
      data_data_message = None, data_data_amount = None, data_targetUserId = None,
      data_fromUserId = None, data_number = None, data_pattern = None, data_rest = []\<rparr>"




text \<open>Sessions and states for the examples.\<close>

definition guest :: "string \<Rightarrow> sock \<Rightarrow> User" where
  "guest name s =
     \<lparr>uid = name, username = name, socket = s, ip = ''10.0.0.1'', status = online,
      isAdmin = False, token = None, lastSeen = 0\<rparr>"

definition threeGuests :: world where
  "threeGuests =
     initialWorld\<lparr>users := [(''a'', guest ''a'' 1), (''b'', guest ''b'' 2), (''c'', guest ''c'' 3)]\<rparr>"



definition aliceWorld :: world where
  "aliceWorld = initialWorld\<lparr>users := [(''alice'', guest ''alice'' 1)]\<rparr>"

definition announceWin :: "string option \<Rightarrow> Data" where
  "announceWin p = emptyData\<lparr>data_type := ''announce_win'', data_pattern := p\<rparr>"


definition authData :: Data where
  "authData = emptyData\<lparr>data_type := ''admin_auth'', data_password := Some ''we17me78''\<rparr>"


definition tokenOwnerIsAdmin :: "world \<Rightarrow> Data \<Rightarrow> bool" where
  "tokenOwnerIsAdmin w d =
     (case data_token d of
        None \<Rightarrow> False
      | Some k \<Rightarrow>
          (case map_get (adminTokens w) k of
             None \<Rightarrow> False
           | Some tokenData \<Rightarrow>
               (case map_get (users w) (userId tokenData) of
                  None \<Rightarrow> False
                | Some u \<Rightarrow> isAdmin u)))"

definition startGame :: "string option \<Rightarrow> Data" where
  "startGame t = emptyData\<lparr>data_type := ''admin_command'', data_command := Some ''start_game'',
                           data_token := t\<rparr>"


definition twiceAuthenticated :: world where
  "twiceAuthenticated =
     stateOf (handleAdminAuth_helpers
       (stateOf (handleAdminAuth_helpers initialWorld 1 authData 1000 ''aa'')) 1 authData 2000 ''bb'')"


text \<open>Two authentications on socket 1 at the same instant 1000 (\<^verbatim>\<open>part_000\<close>).\<close>

definition twiceAtOnce :: world where
  "twiceAtOnce =
     stateOf (handleAdminAuth
       (stateOf (handleAdminAuth initialWorld 1 authData 1000 ''aa'')) 1 authData 1000 ''bb'')"

text \<open>
  The states of the hub of \<^verbatim>\<open>part_000\<close>: it starts with the initial state, and a step
  is a message handled, a socket closed, a run of one of the two intervals or of the
  delayed broadcast, or a change of the sockets themselves.
\<close>

inductive hubState :: "world \<Rightarrow> bool" where
  start: "hubState initialWorld"
| message: "hubState w \<Longrightarrow> hubState (stateOf (handleWebSocketMessage w s d ipaddr now r1 r2))"
| closed: "hubState w \<Longrightarrow> hubState (handleDisconnection w s)"
| presence: "hubState w \<Longrightarrow> hubState (broadcastUserList w)"
| tokenSweep: "hubState w \<Longrightarrow> hubState (cleanupExpiredTokens w now)"
| userSweep: "hubState w \<Longrightarrow> hubState (cleanupTemporaryUsers w now)"
| sockets: "hubState w \<Longrightarrow> hubState (w\<lparr>readyStateOf := r, sendThrows := t\<rparr>)"

section \<open>Fan-out\<close>

lemma sendEach_eq:
  "sendEach us m w =
     w\<lparr>outbox := outbox w @ map (\<lambda>u. (socket u, m))
        (filter (\<lambda>u. readyStateOf w (socket u) = OPEN \<and> \<not> sendThrows w (socket u)) us)\<rparr>"
  by (induction us arbitrary: w) (simp_all add: send_def)

lemma reachable_fun:
  "reachable w = (\<lambda>u. readyStateOf w (socket u) = OPEN \<and> \<not> sendThrows w (socket u))"
  by (simp add: fun_eq_iff reachable_def)

lemma broadcastToAll_eq: "broadcastToAll w m = w\<lparr>outbox := outbox w @ deliveries w m\<rparr>"
  by (simp add: broadcastToAll_def deliveries_def sendEach_eq reachable_fun)

lemma deliveries_gameState_update [simp]: "deliveries (w\<lparr>gameState := g\<rparr>) m = deliveries w m"
  by (simp add: deliveries_def reachable_fun)

lemma deliveries_outbox_update [simp]: "deliveries (w\<lparr>outbox := b\<rparr>) m = deliveries w m"
  by (simp add: deliveries_def reachable_fun)

lemma gameState_broadcastToAll [simp]: "gameState (broadcastToAll w m) = gameState w"
  by (simp add: broadcastToAll_eq)

lemma users_broadcastToAll [simp]: "users (broadcastToAll w m) = users w"
  by (simp add: broadcastToAll_eq)

lemma adminTokens_broadcastToAll [simp]: "adminTokens (broadcastToAll w m) = adminTokens w"
  by (simp add: broadcastToAll_eq)

lemma gameState_send [simp]: "gameState (stateOf (send w s m)) = gameState w"
  by (simp add: send_def)

lemma users_send [simp]: "users (stateOf (send w s m)) = users w"
  by (simp add: send_def)

lemma adminTokens_send [simp]: "adminTokens (stateOf (send w s m)) = adminTokens w"
  by (simp add: send_def)

section \<open>The admin controller\<close>

text \<open>C10: \<^verbatim>\<open>AdminController.verifyToken\<close> answers \<^verbatim>\<open>true\<close> for every token and in
  every state of the controller, also for a token that \<^verbatim>\<open>authenticate\<close> never made.\<close>

theorem verifyToken_accepts_every_token: "verifyToken c t = True"
  by (simp add: verifyToken_def)

section \<open>Calling a number\<close>


lemma handleCallNumber_cases:
  "handleCallNumber w s d =
     (case data_number d of
        None \<Rightarrow> w
      | Some n \<Rightarrow>
          if active (gameState w) \<and> 1 \<le> n \<and> n \<le> 90 \<and> n \<notin> set (calledNumbers (gameState w))
          then (w\<lparr>gameState := (gameState w)\<lparr>calledNumbers := calledNumbers (gameState w) @ [n],
                                               currentNumber := Some n\<rparr>\<rparr>)
                 \<lparr>outbox := outbox w @ deliveries w (NumberCalled n (calledNumbers (gameState w) @ [n]))\<rparr>
          else w)"
  by (simp add: handleCallNumber_def broadcastToAll_eq Let_def split: option.splits)



section \<open>The invariant of the game session\<close>


lemma gameState_sendUserList [simp]: "gameState (stateOf (sendUserList w s)) = gameState w"
  by (simp add: sendUserList_def)

lemma gameState_andThen_send:
  "gameState (stateOf (andThen (send w s m) f)) =
     (if sendThrows w s then gameState w
      else gameState (stateOf (f (w\<lparr>outbox := outbox w @ [(s, m)]\<rparr>))))"
  by (simp add: send_def)

lemma gameState_handleGetStats [simp]: "gameState (stateOf (handleGetStats w s now)) = gameState w"
  by (simp add: handleGetStats_def gameState_andThen_send)

lemma gameState_handleUserJoin [simp]:
  "gameState (stateOf (handleUserJoin w s d ipaddr now r1 r2)) = gameState w"
  by (simp add: handleUserJoin_def Let_def gameState_andThen_send broadcastUserList_def)

lemma gameState_handleAdminAuth [simp]:
  "gameState (stateOf (handleAdminAuth w s d now rnd)) = gameState w"
  by (simp add: handleAdminAuth_def Let_def gameState_andThen_send)

lemma gameState_handleRTCMessage [simp]:
  "gameState (stateOf (handleRTCMessage w s d)) = gameState w"
  by (simp add: handleRTCMessage_def split: option.splits)

text \<open>The four states an admin command can leave the game in.\<close>

lemma gameState_execCommand:
  "gameState (stateOf (execCommand w s d now)) =
     (if data_command d = Some ''start_game''
      then (gameState w)\<lparr>active := True, currentNumber := None, calledNumbers := [], winner := None\<rparr>
      else if data_command d = Some ''pause_game'' then (gameState w)\<lparr>active := False\<rparr>
      else if data_command d = Some ''reset_game''
      then (gameState w)\<lparr>active := False, currentNumber := None, calledNumbers := [], winner := None\<rparr>
      else gameState w)"
  by (simp add: execCommand_def broadcastGameState_def broadcastMessage_def)

lemma rangeInvariant_execCommand:
  "rangeInvariant (gameState w) \<Longrightarrow> rangeInvariant (gameState (stateOf (execCommand w s d now)))"
  by (simp add: gameState_execCommand rangeInvariant_def split: option.splits)


lemma gameState_handleAdminCommand:
  "gameState (stateOf (handleAdminCommand w s d now)) = gameState w \<or>
   gameState (stateOf (handleAdminCommand w s d now)) = gameState (stateOf (execCommand w s d now))"
proof (cases "execCommand w s d now")
  case (Returned w1)
  then show ?thesis
    by (simp add: handleAdminCommand_def split: option.splits)
next
  case (Threw w1)
  then show ?thesis
    by (simp add: handleAdminCommand_def split: option.splits)
qed

lemma rangeInvariant_handleAdminCommand:
  "rangeInvariant (gameState w) \<Longrightarrow> rangeInvariant (gameState (stateOf (handleAdminCommand w s d now)))"
  using gameState_handleAdminCommand [of w s d now] rangeInvariant_execCommand [of w s d now]
  by auto


lemma rangeInvariant_handleCallNumber:
  "rangeInvariant (gameState w) \<Longrightarrow> rangeInvariant (gameState (handleCallNumber w s d))"
  by (auto simp: handleCallNumber_cases rangeInvariant_def split: option.splits)


lemma handleAnnounceWin_cases:
  "handleAnnounceWin w s d =
     (case findBySocket (users w) s of
        None \<Rightarrow> w
      | Some user \<Rightarrow>
          (case data_pattern d of
             None \<Rightarrow> w
           | Some pattern \<Rightarrow>
               if pattern = [] then w
               else (w\<lparr>gameState := (gameState w)\<lparr>winner := Some (uid user)\<rparr>\<rparr>)
                      \<lparr>outbox := outbox w @
                          deliveries w (WinnerAnnounced (uid user) (username user) pattern)\<rparr>))"
  by (simp add: handleAnnounceWin_def broadcastToAll_eq split: option.splits)

lemma rangeInvariant_handleAnnounceWin:
  "rangeInvariant (gameState w) \<Longrightarrow> rangeInvariant (gameState (handleAnnounceWin w s d))"
  by (simp add: handleAnnounceWin_cases rangeInvariant_def split: option.splits)


lemma gameState_handleWebSocketMessage:
  "gameState (stateOf (handleWebSocketMessage w s d ipaddr now r1 r2)) \<in>
     {gameState w, gameState (stateOf (handleAdminCommand w s d now)),
      gameState (handleCallNumber w s d), gameState (handleAnnounceWin w s d)}"
  by (simp add: handleWebSocketMessage_def handleMarkNumber_def Let_def)

lemma rangeInvariant_handleWebSocketMessage:
  "rangeInvariant (gameState w) \<Longrightarrow>
     rangeInvariant (gameState (stateOf (handleWebSocketMessage w s d ipaddr now r1 r2)))"
  using gameState_handleWebSocketMessage [of w s d ipaddr now r1 r2]
    rangeInvariant_handleAdminCommand [of w s d now] rangeInvariant_handleCallNumber [of w s d]
    rangeInvariant_handleAnnounceWin [of w s d]
  by auto





section \<open>The invariant in every state of the hub\<close>

lemma rangeInvariant_hubState: "hubState w \<Longrightarrow> rangeInvariant (gameState w)"
proof (induction rule: hubState.induct)
  case start
  show ?case
    by (simp add: initialWorld_def initialGameState_def rangeInvariant_def)
next
  case (message w s d ipaddr now r1 r2)
  then show ?case
    by (simp add: rangeInvariant_handleWebSocketMessage)
next
  case (closed w s)
  then show ?case
    by (simp add: handleDisconnection_def split: option.splits)
next
  case (presence w)
  then show ?case
    by (simp add: broadcastUserList_def)
next
  case (tokenSweep w now)
  then show ?case
    by (simp add: cleanupExpiredTokens_def)
next
  case (userSweep w now)
  then show ?case
    by (simp add: cleanupTemporaryUsers_def)
next
  case (sockets w r t)
  then show ?case
    by simp
qed

lemma distinct_calledNumbers_hubState: "hubState w \<Longrightarrow> distinct (calledNumbers (gameState w))"
  using rangeInvariant_hubState [of w] by (simp add: rangeInvariant_def)

section \<open>Isolation of failures in the fan-out\<close>

lemma filter_reachable_all: "\<forall>u \<in> set us. reachable w u \<Longrightarrow> filter (reachable w) us = us"
  by (induction us) auto

text \<open>C7: \<^verbatim>\<open>broadcastToAll\<close> of \<^verbatim>\<open>part_000\<close> changes nothing but the outbox, and hands
  the message to every session whose socket is open and does not raise, whatever the
  other sockets do; with one session that is closed or raises among \<open>N\<close>, the other
  \<open>N - 1\<close> get the message.\<close>

theorem broadcastToAll_isolates_failures:
  "broadcastToAll w m = w\<lparr>outbox := outbox w @ deliveries w m\<rparr> \<and>
   (\<forall>u \<in> set (map_values (users w)). reachable w u \<longrightarrow> (socket u, m) \<in> set (deliveries w m)) \<and>
   (users w = before @ [(k, bad)] @ after \<and> \<not> reachable w bad \<and>
    (\<forall>u \<in> set (map_values (before @ after)). reachable w u) \<longrightarrow>
      deliveries w m = map (\<lambda>u. (socket u, m)) (map_values (before @ after)) \<and>
      length (deliveries w m) = length (users w) - 1)"
proof -
  have frame: "broadcastToAll w m = w\<lparr>outbox := outbox w @ deliveries w m\<rparr>"
    by (rule broadcastToAll_eq)
  have each: "\<forall>u \<in> set (map_values (users w)). reachable w u \<longrightarrow> (socket u, m) \<in> set (deliveries w m)"
    by (auto simp: deliveries_def)
  have others: "deliveries w m = map (\<lambda>u. (socket u, m)) (map_values (before @ after)) \<and>
      length (deliveries w m) = length (users w) - 1"
    if a: "users w = before @ [(k, bad)] @ after \<and> \<not> reachable w bad \<and>
      (\<forall>u \<in> set (map_values (before @ after)). reachable w u)"
  proof -
    from a have b: "\<forall>u \<in> set (map_values before). reachable w u"
      and c: "\<forall>u \<in> set (map_values after). reachable w u"
      by (auto simp: map_values_def)
    from a have "filter (reachable w) (map_values (users w)) = map_values before @ map_values after"
      by (simp add: map_values_def filter_reachable_all [OF b [unfolded map_values_def]]
          filter_reachable_all [OF c [unfolded map_values_def]])
    with a show ?thesis
      by (simp add: deliveries_def map_values_def)
  qed
  from frame each others show ?thesis
    by blast
qed

theorem broadcastToAll_witness:
  "users (threeGuests\<lparr>sendThrows := (\<lambda>s. s = 2)\<rparr>) =
     [(''a'', guest ''a'' 1)] @ [(''b'', guest ''b'' 2)] @ [(''c'', guest ''c'' 3)] \<and>
   \<not> reachable (threeGuests\<lparr>sendThrows := (\<lambda>s. s = 2)\<rparr>) (guest ''b'' 2) \<and>
   reachable (threeGuests\<lparr>sendThrows := (\<lambda>s. s = 2)\<rparr>) (guest ''a'' 1) \<and>
   reachable (threeGuests\<lparr>sendThrows := (\<lambda>s. s = 2)\<rparr>) (guest ''c'' 3) \<and>
   outbox (broadcastToAll (threeGuests\<lparr>sendThrows := (\<lambda>s. s = 2)\<rparr>) (Broadcast ''hello'' 5)) =
     [(1, Broadcast ''hello'' 5), (3, Broadcast ''hello'' 5)] \<and>
   outbox (broadcastToAll (threeGuests\<lparr>readyStateOf := (\<lambda>s. if s = 2 then CLOSED else OPEN)\<rparr>)
             (Broadcast ''hello'' 5)) =
     [(1, Broadcast ''hello'' 5), (3, Broadcast ''hello'' 5)]"
  using broadcastToAll_isolates_failures
     [of "threeGuests\<lparr>sendThrows := (\<lambda>s. s = 2)\<rparr>" "Broadcast ''hello'' 5"
         "[(''a'', guest ''a'' 1)]" "''b''" "guest ''b'' 2" "[(''c'', guest ''c'' 3)]"]
    broadcastToAll_isolates_failures
     [of "threeGuests\<lparr>readyStateOf := (\<lambda>s. if s = 2 then CLOSED else OPEN)\<rparr>" "Broadcast ''hello'' 5"
         "[(''a'', guest ''a'' 1)]" "''b''" "guest ''b'' 2" "[(''c'', guest ''c'' 3)]"]
  by (simp add: threeGuests_def initialWorld_def guest_def reachable_def deliveries_def
      map_values_def broadcastToAll_eq)

text \<open>The older \<^verbatim>\<open>broadcastToAll\<close> of \<^verbatim>\<open>utilshelpers.ts\<close> agrees with it as long as no
  open socket raises, and stops at the first one that does.\<close>

lemma sendEach_helpers_no_throw:
  "\<forall>u \<in> set us. readyStateOf w (socket u) = OPEN \<longrightarrow> \<not> sendThrows w (socket u) \<Longrightarrow>
     sendEach_helpers us m w = Returned (sendEach us m w)"
  by (induction us arbitrary: w) (simp_all add: send_def)

lemma broadcastToAll_helpers_no_throw:
  "\<forall>u \<in> set (map_values (users w)). readyStateOf w (socket u) = OPEN \<longrightarrow> \<not> sendThrows w (socket u) \<Longrightarrow>
     broadcastToAll_helpers w m = Returned (broadcastToAll w m)"
  by (simp add: broadcastToAll_helpers_def broadcastToAll_def sendEach_helpers_no_throw)

lemma sendEach_helpers_stops:
  "\<forall>u \<in> set us. readyStateOf w (socket u) = OPEN \<longrightarrow> \<not> sendThrows w (socket u) \<Longrightarrow>
   readyStateOf w (socket bad) = OPEN \<Longrightarrow> sendThrows w (socket bad) \<Longrightarrow>
     sendEach_helpers (us @ bad # vs) m w = Threw (sendEach us m w)"
  by (induction us arbitrary: w) (simp_all add: send_def)

lemma broadcastToAll_helpers_stops:
  "broadcastToAll_helpers (threeGuests\<lparr>sendThrows := (\<lambda>s. s = 2)\<rparr>) (Broadcast ''hello'' 5) =
     Threw (threeGuests\<lparr>sendThrows := (\<lambda>s. s = 2), outbox := [(1, Broadcast ''hello'' 5)]\<rparr>)"
  by (simp add: broadcastToAll_helpers_def threeGuests_def initialWorld_def guest_def
      map_values_def send_def)

section \<open>Relay of RTC messages\<close>



text \<open>\<^verbatim>\<open>SignalingController.handleSignal\<close> relays in the same way; it sends the signal
  as received, with the \<^verbatim>\<open>source\<close> the client wrote.\<close>

lemma handleSignal_relays_or_drops:
  "(map_get (connections c) (target signal) = Some t \<and> readyStateOfWs c t = OPEN \<longrightarrow>
      handleSignal c ws signal = c\<lparr>sent := sent c @ [(t, Signal signal)]\<rparr>) \<and>
   (map_get (connections c) (target signal) = None \<or>
    (\<exists>t. map_get (connections c) (target signal) = Some t \<and> readyStateOfWs c t \<noteq> OPEN) \<longrightarrow>
      handleSignal c ws signal = c)"
  by (auto simp: handleSignal_def)

section \<open>Announcing a win\<close>

text \<open>C9, as the specification words it, fails: \<^verbatim>\<open>handleAnnounceWin\<close> is guarded by
  \<^verbatim>\<open>user && data.pattern\<close>, so an \<^verbatim>\<open>announce_win\<close> without a pattern, or with the
  empty one, from a registered sender sets no winner and sends nothing.\<close>

theorem handleAnnounceWin_counterexample:
  "findBySocket (users aliceWorld) 1 = Some (guest ''alice'' 1) \<and>
   handleAnnounceWin aliceWorld 1 (announceWin None) = aliceWorld \<and>
   handleAnnounceWin aliceWorld 1 (announceWin (Some [])) = aliceWorld \<and>
   winner (gameState (handleAnnounceWin aliceWorld 1 (announceWin None))) = None \<and>
   outbox (handleAnnounceWin aliceWorld 1 (announceWin None)) = []"
  by (simp add: handleAnnounceWin_cases aliceWorld_def initialWorld_def initialGameState_def
      guest_def announceWin_def emptyData_def findBySocket_def map_values_def)

text \<open>C9, amended: for a sender whose socket has a session, an \<^verbatim>\<open>announce_win\<close> whose
  pattern is present and not empty sets \<^verbatim>\<open>winner\<close> to the identity of that session
  and hands a \<^verbatim>\<open>winner_announced\<close> to every session that can be reached; nothing
  else changes, and neither \<^verbatim>\<open>calledNumbers\<close> nor \<^verbatim>\<open>active\<close> is consulted.
  Without a session, or without such a pattern, the state stays as it is.\<close>

theorem handleAnnounceWin_sets_winner:
  "(findBySocket (users w) s = Some u \<and> data_pattern d = Some p \<and> p \<noteq> [] \<longrightarrow>
      handleAnnounceWin w s d =
        w\<lparr>gameState := (gameState w)\<lparr>winner := Some (uid u)\<rparr>,
           outbox := outbox w @ deliveries w (WinnerAnnounced (uid u) (username u) p)\<rparr>) \<and>
   (findBySocket (users w) s = None \<or> \<not> truthy (data_pattern d) \<longrightarrow> handleAnnounceWin w s d = w)"
  by (auto simp: handleAnnounceWin_cases truthy_def split: option.splits)

theorem handleAnnounceWin_witness:
  "findBySocket (users threeGuests) 2 = Some (guest ''b'' 2) \<and>
   data_pattern (announceWin (Some ''full_house'')) = Some ''full_house'' \<and>
   \<not> active (gameState threeGuests) \<and> calledNumbers (gameState threeGuests) = [] \<and>
   winner (gameState (handleAnnounceWin threeGuests 2 (announceWin (Some ''full_house'')))) = Some ''b'' \<and>
   outbox (handleAnnounceWin threeGuests 2 (announceWin (Some ''full_house''))) =
     [(1, WinnerAnnounced ''b'' ''b'' ''full_house''), (2, WinnerAnnounced ''b'' ''b'' ''full_house''),
      (3, WinnerAnnounced ''b'' ''b'' ''full_house'')] \<and>
   findBySocket (users threeGuests) 9 = None \<and>
   handleAnnounceWin threeGuests 9 (announceWin (Some ''full_house'')) = threeGuests \<and>
   \<not> truthy (data_pattern (announceWin (Some []))) \<and>
   handleAnnounceWin threeGuests 2 (announceWin (Some [])) = threeGuests"
  using handleAnnounceWin_sets_winner
      [of threeGuests 2 "guest ''b'' 2" "announceWin (Some ''full_house'')" "''full_house''"]
    handleAnnounceWin_sets_winner
      [of threeGuests 2 "guest ''b'' 2" "announceWin (Some [])" "''full_house''"]
    handleAnnounceWin_sets_winner
      [of threeGuests 9 "guest ''b'' 2" "announceWin (Some ''full_house'')" "''full_house''"]
  by (simp add: threeGuests_def initialWorld_def initialGameState_def guest_def announceWin_def
      emptyData_def findBySocket_def map_values_def deliveries_def reachable_def truthy_def)

section \<open>Joining\<close>

lemma map_get_map_set: "map_get (map_set m k v) k' = (if k' = k then Some v else map_get m k')"
  by (induction m) (auto simp: map_get_def)



lemma users_andThen_send:
  "users (stateOf (andThen (send w s m) f)) =
     (if sendThrows w s then users w
      else users (stateOf (f (w\<lparr>outbox := outbox w @ [(s, m)]\<rparr>))))"
  by (simp add: send_def)






section \<open>Authentication and the session of the channel\<close>

lemma showNow_1000: "showNow 1000 = ''1000''"
  by (simp add: showNow_def digitChar_def)

lemma users_sendUserList [simp]: "users (stateOf (sendUserList w s)) = users w"
  by (simp add: sendUserList_def)

lemma users_handleGetStats [simp]: "users (stateOf (handleGetStats w s now)) = users w"
  by (simp add: handleGetStats_def users_andThen_send)

lemma adminTokens_andThen_send:
  "adminTokens (stateOf (andThen (send w s m) f)) =
     (if sendThrows w s then adminTokens w
      else adminTokens (stateOf (f (w\<lparr>outbox := outbox w @ [(s, m)]\<rparr>))))"
  by (simp add: send_def)

lemma adminTokens_handleGetStats [simp]:
  "adminTokens (stateOf (handleGetStats w s now)) = adminTokens w"
  by (simp add: handleGetStats_def adminTokens_andThen_send sendUserList_def)


lemma users_handleAdminAuth_helpers:
  "verifyAdminPassword (data_password d) \<Longrightarrow>
     users (stateOf (handleAdminAuth_helpers w s d now rnd)) =
       (case findBySocket (users w) s of
          None \<Rightarrow> map_set (users w) (''admin_'' @ showNow now)
            \<lparr>uid = ''admin_'' @ showNow now, username = ''Admin'', socket = s, ip = ''admin'',
             status = online, isAdmin = True, token = Some (generateToken rnd now), lastSeen = now\<rparr>
        | Some u \<Rightarrow>
            mutateBySocket (users w) s (\<lambda>u. u\<lparr>isAdmin := True, token := Some (generateToken rnd now)\<rparr>))"
  by (simp add: handleAdminAuth_helpers_def Let_def split: option.splits)





section \<open>Tokens\<close>

lemma verifyAdminPassword_authData: "verifyAdminPassword (data_password authData)"
  by (simp add: verifyAdminPassword_def authData_def emptyData_def ADMIN_PASSWORD_def)

lemma generateToken_examples:
  "generateToken ''aa'' 0 = ''aa_0''" "generateToken ''aa'' 1000 = ''aa_rs''"
  "generateToken ''bb'' 2000 = ''bb_1jk''"
  by (simp_all add: generateToken_def digitChar_def)

lemma adminTokens_handleAdminAuth:
  "verifyAdminPassword (data_password d) \<Longrightarrow>
     adminTokens (stateOf (handleAdminAuth w s d now rnd)) =
       map_set (adminTokens w) (generateToken rnd now)
         \<lparr>userId = ''admin_'' @ showNow now, expires = now + 24 * 60 * 60 * 1000\<rparr>"
  by (simp add: handleAdminAuth_def Let_def adminTokens_andThen_send)

lemma adminTokens_handleAdminAuth_helpers:
  "verifyAdminPassword (data_password d) \<Longrightarrow>
     adminTokens (stateOf (handleAdminAuth_helpers w s d now rnd)) =
       map_set (adminTokens w) (generateToken rnd now)
         \<lparr>userId = (case findBySocket (users w) s of None \<Rightarrow> ''admin_'' @ showNow now | Some u \<Rightarrow> uid u),
          expires = now + 24 * 60 * 60 * 1000\<rparr>"
  by (simp add: handleAdminAuth_helpers_def Let_def split: option.splits)

lemma tokenRejected_map_set:
  "tokenRejected (map_set toks k v) (Some k') t =
     (if k' = k then expires v < t else tokenRejected toks (Some k') t)"
  by (simp add: tokenRejected_def map_get_map_set)

lemma map_get_filter_kept:
  "map_get m k = Some v \<Longrightarrow> P (k, v) \<Longrightarrow> map_get (filter P m) k = Some v"
  by (induction m) (auto simp: map_get_def split: if_splits)

lemma tokenRejected_cleanupExpiredTokens:
  "\<not> tokenRejected (adminTokens w) (Some k) t1 \<Longrightarrow>
     tokenRejected (adminTokens (cleanupExpiredTokens w t1)) (Some k) t =
       tokenRejected (adminTokens w) (Some k) t"
proof -
  assume a: "\<not> tokenRejected (adminTokens w) (Some k) t1"
  then obtain v where v: "map_get (adminTokens w) k = Some v" and e: "\<not> expires v < t1"
    by (auto simp: tokenRejected_def split: option.splits)
  from e have "\<not> expires (snd (k, v)) < t1"
    by simp
  with v have "map_get (filter (\<lambda>e. \<not> expires (snd e) < t1) (adminTokens w)) k = Some v"
    by (rule map_get_filter_kept)
  with v show ?thesis
    by (simp add: tokenRejected_def cleanupExpiredTokens_def)
qed

lemma twiceAuthenticated_fields:
  "adminTokens twiceAuthenticated =
     [(generateToken ''aa'' 1000, \<lparr>userId = ''admin_1000'', expires = 86401000\<rparr>),
      (generateToken ''bb'' 2000, \<lparr>userId = ''admin_1000'', expires = 86402000\<rparr>)]"
  "users twiceAuthenticated =
     [(''admin_1000'',
       \<lparr>uid = ''admin_1000'', username = ''Admin'', socket = 1, ip = ''admin'', status = online,
        isAdmin = True, token = Some (generateToken ''bb'' 2000), lastSeen = 1000\<rparr>)]"
  "gameState twiceAuthenticated = initialGameState"
  by (simp_all add: twiceAuthenticated_def adminTokens_handleAdminAuth_helpers
      users_handleAdminAuth_helpers verifyAdminPassword_authData showNow_1000 initialWorld_def
      findBySocket_def map_values_def generateToken_examples handleAdminAuth_helpers_def Let_def)

lemma gameState_sendEach_helpers [simp]:
  "gameState (stateOf (sendEach_helpers us m w)) = gameState w"
  by (induction us arbitrary: w) (simp_all add: send_def)

lemma gameState_andThen_reply:
  "gameState (stateOf (andThen r (\<lambda>w1. send w1 s m))) = gameState (stateOf r)"
  by (cases r) simp_all

lemma handleAdminCommand_helpers_start_game:
  "\<not> tokenRejected (adminTokens w) (data_token d) now \<Longrightarrow> tokenOwnerIsAdmin w d \<Longrightarrow>
   data_command d = Some ''start_game'' \<Longrightarrow>
     active (gameState (stateOf (handleAdminCommand_helpers w s d now)))"
  by (auto simp: handleAdminCommand_helpers_def tokenOwnerIsAdmin_def gameState_andThen_reply
      execCommand_helpers_def broadcastGameState_helpers_def broadcastToAll_helpers_def
      split: option.splits)

lemma twiceAtOnce_fields:
  "adminTokens twiceAtOnce =
     [(generateToken ''aa'' 1000, \<lparr>userId = ''admin_1000'', expires = 86401000\<rparr>),
      (generateToken ''bb'' 1000, \<lparr>userId = ''admin_1000'', expires = 86401000\<rparr>)]"
  by (simp add: twiceAtOnce_def adminTokens_handleAdminAuth verifyAdminPassword_authData
      showNow_1000 initialWorld_def generateToken_def)

text \<open>C4, as the specification words it, fails in its last part: no code removes or
  replaces an earlier token of the same owner.  After two authentications on one socket
  (\<^verbatim>\<open>utilshelpers.ts\<close>) both tokens belong to the owner \<open>admin_1000\<close>, both pass the
  test of \<^verbatim>\<open>handleAdminCommand\<close>, and the earlier one starts the game.  In
  \<^verbatim>\<open>part_000\<close> the owner is named after the instant, and two tokens issued at one
  instant belong to one owner and both pass the test.\<close>

theorem issued_token_counterexample:
  "map_option userId (map_get (adminTokens twiceAuthenticated) (generateToken ''aa'' 1000)) =
     Some ''admin_1000'' \<and>
   map_option userId (map_get (adminTokens twiceAuthenticated) (generateToken ''bb'' 2000)) =
     Some ''admin_1000'' \<and>
   generateToken ''aa'' 1000 \<noteq> generateToken ''bb'' 2000 \<and>
   \<not> tokenRejected (adminTokens twiceAuthenticated) (Some (generateToken ''bb'' 2000)) 3000 \<and>
   \<not> tokenRejected (adminTokens twiceAuthenticated) (Some (generateToken ''aa'' 1000)) 3000 \<and>
   \<not> active (gameState twiceAuthenticated) \<and>
   active (gameState (stateOf (handleAdminCommand_helpers twiceAuthenticated 1
      (startGame (Some (generateToken ''aa'' 1000))) 3000))) \<and>
   map_option userId (map_get (adminTokens twiceAtOnce) (generateToken ''aa'' 1000)) =
     Some ''admin_1000'' \<and>
   map_option userId (map_get (adminTokens twiceAtOnce) (generateToken ''bb'' 1000)) =
     Some ''admin_1000'' \<and>
   \<not> tokenRejected (adminTokens twiceAtOnce) (Some (generateToken ''bb'' 1000)) 3000 \<and>
   \<not> tokenRejected (adminTokens twiceAtOnce) (Some (generateToken ''aa'' 1000)) 3000"
proof -
  have t: "\<not> tokenRejected (adminTokens twiceAuthenticated)
      (data_token (startGame (Some (generateToken ''aa'' 1000)))) 3000"
    by (simp add: twiceAuthenticated_fields tokenRejected_def map_get_def startGame_def
        emptyData_def generateToken_examples)
  have o: "tokenOwnerIsAdmin twiceAuthenticated (startGame (Some (generateToken ''aa'' 1000)))"
    by (simp add: twiceAuthenticated_fields tokenOwnerIsAdmin_def map_get_def startGame_def
        emptyData_def generateToken_examples)
  have c: "data_command (startGame (Some (generateToken ''aa'' 1000))) = Some ''start_game''"
    by (simp add: startGame_def emptyData_def)
  have g: "generateToken ''bb'' 1000 = ''bb_rs''"
    by (simp add: generateToken_def digitChar_def)
  from handleAdminCommand_helpers_start_game [OF t o c] show ?thesis
    by (simp add: twiceAuthenticated_fields twiceAtOnce_fields tokenRejected_def map_get_def
        generateToken_examples g initialGameState_def)
qed

text \<open>C4, amended: in both variants the token made by a successful \<^verbatim>\<open>admin_auth\<close> at
  time \<open>now\<close> passes the test of \<^verbatim>\<open>handleAdminCommand\<close> at every instant up to and
  including \<open>now + 24h\<close> and fails it at every later instant, also when the sweep of
  expired tokens has run in between, no later than the expiry.  Issuing a token leaves
  every other token as valid as it was: an earlier token of the same owner is not
  superseded.\<close>

theorem issued_token_validity:
  "verifyAdminPassword (data_password d) \<Longrightarrow>
     (\<forall>t. tokenRejected (adminTokens (stateOf (handleAdminAuth w s d now rnd)))
            (Some (generateToken rnd now)) t = (now + 24 * 60 * 60 * 1000 < t)) \<and>
     (\<forall>t. tokenRejected (adminTokens (stateOf (handleAdminAuth_helpers w s d now rnd)))
            (Some (generateToken rnd now)) t = (now + 24 * 60 * 60 * 1000 < t)) \<and>
     (\<forall>t1 t. t1 \<le> now + 24 * 60 * 60 * 1000 \<longrightarrow>
        tokenRejected (adminTokens (cleanupExpiredTokens (stateOf (handleAdminAuth w s d now rnd)) t1))
          (Some (generateToken rnd now)) t = (now + 24 * 60 * 60 * 1000 < t) \<and>
        tokenRejected (adminTokens (cleanupExpiredTokens (stateOf (handleAdminAuth_helpers w s d now rnd)) t1))
          (Some (generateToken rnd now)) t = (now + 24 * 60 * 60 * 1000 < t)) \<and>
     (\<forall>k t. k \<noteq> generateToken rnd now \<longrightarrow>
        tokenRejected (adminTokens (stateOf (handleAdminAuth w s d now rnd))) (Some k) t =
          tokenRejected (adminTokens w) (Some k) t \<and>
        tokenRejected (adminTokens (stateOf (handleAdminAuth_helpers w s d now rnd))) (Some k) t =
          tokenRejected (adminTokens w) (Some k) t)"
proof -
  assume v: "verifyAdminPassword (data_password d)"
  have a: "tokenRejected (adminTokens (stateOf (handleAdminAuth w s d now rnd)))
            (Some (generateToken rnd now)) t = (now + 24 * 60 * 60 * 1000 < t)" for t
    by (simp add: adminTokens_handleAdminAuth [OF v] tokenRejected_map_set)
  have b: "tokenRejected (adminTokens (stateOf (handleAdminAuth_helpers w s d now rnd)))
            (Some (generateToken rnd now)) t = (now + 24 * 60 * 60 * 1000 < t)" for t
    by (simp add: adminTokens_handleAdminAuth_helpers [OF v] tokenRejected_map_set)
  have c: "tokenRejected (adminTokens (cleanupExpiredTokens (stateOf (handleAdminAuth w s d now rnd)) t1))
          (Some (generateToken rnd now)) t = (now + 24 * 60 * 60 * 1000 < t) \<and>
        tokenRejected (adminTokens (cleanupExpiredTokens (stateOf (handleAdminAuth_helpers w s d now rnd)) t1))
          (Some (generateToken rnd now)) t = (now + 24 * 60 * 60 * 1000 < t)"
    if "t1 \<le> now + 24 * 60 * 60 * 1000" for t1 t
  proof -
    from that have "\<not> tokenRejected (adminTokens (stateOf (handleAdminAuth w s d now rnd)))
        (Some (generateToken rnd now)) t1"
      and "\<not> tokenRejected (adminTokens (stateOf (handleAdminAuth_helpers w s d now rnd)))
        (Some (generateToken rnd now)) t1"
      by (simp_all add: a b)
    then show ?thesis
      by (simp add: tokenRejected_cleanupExpiredTokens a b)
  qed
  have e: "tokenRejected (adminTokens (stateOf (handleAdminAuth w s d now rnd))) (Some k) t =
          tokenRejected (adminTokens w) (Some k) t \<and>
        tokenRejected (adminTokens (stateOf (handleAdminAuth_helpers w s d now rnd))) (Some k) t =
          tokenRejected (adminTokens w) (Some k) t"
    if "k \<noteq> generateToken rnd now" for k t
    using that
    by (simp add: adminTokens_handleAdminAuth [OF v] adminTokens_handleAdminAuth_helpers [OF v]
        tokenRejected_map_set)
  from a b c e show ?thesis
    by blast
qed

theorem issued_token_witness:
  "verifyAdminPassword (data_password authData) \<and>
   \<not> tokenRejected (adminTokens (stateOf (handleAdminAuth initialWorld 1 authData 1000 ''aa'')))
       (Some (generateToken ''aa'' 1000)) 86401000 \<and>
   tokenRejected (adminTokens (stateOf (handleAdminAuth initialWorld 1 authData 1000 ''aa'')))
       (Some (generateToken ''aa'' 1000)) 86401001 \<and>
   \<not> tokenRejected (adminTokens (cleanupExpiredTokens
         (stateOf (handleAdminAuth initialWorld 1 authData 1000 ''aa'')) 5000))
       (Some (generateToken ''aa'' 1000)) 86401000 \<and>
   tokenRejected (adminTokens (stateOf (handleAdminAuth initialWorld 1 authData 1000 ''aa'')))
       (Some ''never issued'') 2000"
  using issued_token_validity [OF verifyAdminPassword_authData, of initialWorld 1 1000 "''aa''"]
    verifyAdminPassword_authData
  by (simp add: generateToken_examples initialWorld_def tokenRejected_def map_get_def)

section \<open>Admin commands without authorisation\<close>








end
